theory Spec2Isabelle
  imports Main
begin

section \<open>Values thrown by the platform and the identity provider\<close>

text \<open>
  Every \<^verbatim>\<open>catch (error)\<close> of the sources reads at most the \<^verbatim>\<open>name\<close> and the
  \<^verbatim>\<open>message\<close> property of the value it caught. A thrown value is modelled by these two
  properties; \<open>None\<close> stands for a property that is \<^verbatim>\<open>undefined\<close>. A provider call that
  is awaited inside \<^verbatim>\<open>try\<close> is modelled by its outcome, \<open>Inl\<close> the value it rejected
  with and \<open>Inr\<close> the value it resolved to.
\<close>

record js_error =
  err_name :: "string option"
  err_message :: "string option"

text \<open>\<^verbatim>\<open>new Error(msg)\<close>: the name of a plain \<^verbatim>\<open>Error\<close> is the string "Error".\<close>

definition Error :: "string \<Rightarrow> js_error" where
  "Error msg = \<lparr>err_name = Some ''Error'', err_message = Some msg\<rparr>"

section \<open>The auth state provider (AuthProvider)\<close>

datatype role = RoleUser | RoleAdmin

text \<open>
  The interface \<^verbatim>\<open>User\<close>. Its properties \<^verbatim>\<open>id\<close>, \<^verbatim>\<open>email\<close> and \<^verbatim>\<open>name\<close> carry the
  prefix \<open>user_\<close> here, since the sign-up view has state variables of the same names.
\<close>

record User =
  user_id :: string
  user_email :: string
  user_name :: string
  role :: role
  createdAt :: string

text \<open>What \<^verbatim>\<open>getCurrentUser()\<close> resolves to, as far as \<^verbatim>\<open>checkUser\<close> reads it.\<close>

record current_user =
  userId :: string
  username :: string

text \<open>
  The two \<^verbatim>\<open>useState\<close> cells of the provider, and the lines written to the console.
  \<open>authLoading\<close> is the provider's \<^verbatim>\<open>isLoading\<close> cell (the view has its own).
\<close>

record auth_state =
  user :: "User option"
  authLoading :: bool
  console :: "string list"

definition auth_init :: auth_state where
  "auth_init = \<lparr>user = None, authLoading = True, console = []\<rparr>"

text \<open>
  \<^verbatim>\<open>checkUser\<close>: the session is fetched, then the current user; the first rejection
  lands in the \<^verbatim>\<open>catch\<close> block. \<open>now\<close> is the value of
  \<^verbatim>\<open>new Date().toISOString()\<close>.
\<close>

definition checkUser ::
  "js_error + unit \<Rightarrow> js_error + current_user \<Rightarrow> string \<Rightarrow> auth_state \<Rightarrow> auth_state" where
  "checkUser session current now s =
     (let s1 =
        (case session of
           Inl error \<Rightarrow> s\<lparr>console := console s @ [''User not signed in''], user := None\<rparr>
         | Inr _ \<Rightarrow>
             (case current of
                Inl error \<Rightarrow> s\<lparr>console := console s @ [''User not signed in''], user := None\<rparr>
              | Inr currentUser \<Rightarrow>
                  s\<lparr>user := Some \<lparr>user_id = userId currentUser,
                                   user_email = username currentUser,
                                   user_name = username currentUser,
                                   role = RoleUser,
                                   createdAt = now\<rparr>\<rparr>))
      in s1\<lparr>authLoading := False\<rparr>)"

text \<open>
  The operations return the new provider state and what the caller's \<^verbatim>\<open>await\<close> sees:
  \<open>Inl\<close> a rejection, \<open>Inr ()\<close> a normal return.
\<close>

definition login ::
  "js_error + bool \<Rightarrow> js_error + unit \<Rightarrow> js_error + current_user \<Rightarrow> string \<Rightarrow>
   auth_state \<Rightarrow> auth_state \<times> (js_error + unit)" where
  "login signIn session current now s =
     (case signIn of
        Inr isSignedIn \<Rightarrow>
          (if isSignedIn then (checkUser session current now s, Inr ()) else (s, Inr ()))
      | Inl error \<Rightarrow> (s\<lparr>console := console s @ [''Login failed:'']\<rparr>, Inl error))"

definition signup :: "js_error + unit \<Rightarrow> auth_state \<Rightarrow> auth_state \<times> (js_error + unit)" where
  "signup signUp s =
     (case signUp of
        Inr _ \<Rightarrow> (s, Inr ())
      | Inl error \<Rightarrow> (s\<lparr>console := console s @ [''Signup failed:'']\<rparr>, Inl error))"

definition verifyCode :: "js_error + unit \<Rightarrow> auth_state \<Rightarrow> auth_state \<times> (js_error + unit)" where
  "verifyCode confirmSignUp s =
     (case confirmSignUp of
        Inr _ \<Rightarrow> (s, Inr ())
      | Inl error \<Rightarrow> (s\<lparr>console := console s @ [''Verification failed:'']\<rparr>, Inl error))"

definition resendCode :: "js_error + unit \<Rightarrow> auth_state \<Rightarrow> auth_state \<times> (js_error + unit)" where
  "resendCode resendSignUpCode s =
     (case resendSignUpCode of
        Inr _ \<Rightarrow> (s, Inr ())
      | Inl error \<Rightarrow> (s\<lparr>console := console s @ [''Resend code failed:'']\<rparr>, Inl error))"

text \<open>
  \<^verbatim>\<open>logout\<close>: \<^verbatim>\<open>setUser(null)\<close> is the statement after \<^verbatim>\<open>await signOut()\<close> inside the
  \<^verbatim>\<open>try\<close> block, so a rejected sign-out skips it; the \<^verbatim>\<open>catch\<close> block logs and does
  not rethrow.
\<close>

definition logout :: "js_error + unit \<Rightarrow> auth_state \<Rightarrow> auth_state \<times> (js_error + unit)" where
  "logout signOut s =
     (case signOut of
        Inr _ \<Rightarrow> (s\<lparr>user := None\<rparr>, Inr ())
      | Inl error \<Rightarrow> (s\<lparr>console := console s @ [''Logout failed:'']\<rparr>, Inr ()))"

text \<open>
  The value handed to \<^verbatim>\<open>AuthContext.Provider\<close> on every render. \<^verbatim>\<open>!!user\<close> is the
  truthiness of \<^verbatim>\<open>user\<close>: \<^verbatim>\<open>null\<close> is falsy and every object is truthy, whatever its
  properties hold.
\<close>

record auth_context =
  ctx_user :: "User option"
  isAuthenticated :: bool
  ctx_isLoading :: bool

definition truthy_user :: "User option \<Rightarrow> bool" where
  "truthy_user u = (case u of None \<Rightarrow> False | Some _ \<Rightarrow> True)"

definition provided :: "auth_state \<Rightarrow> auth_context" where
  "provided s =
     \<lparr>ctx_user = user s, isAuthenticated = truthy_user (user s), ctx_isLoading = authLoading s\<rparr>"

text \<open>
  One use of the provider: the session check run on mount, or one of the operations it
  exposes, together with the outcomes of the provider calls made on the way.
\<close>

datatype auth_op =
    OpCheckUser "js_error + unit" "js_error + current_user" string
  | OpLogin "js_error + bool" "js_error + unit" "js_error + current_user" string
  | OpSignup "js_error + unit"
  | OpVerifyCode "js_error + unit"
  | OpResendCode "js_error + unit"
  | OpLogout "js_error + unit"

fun auth_step :: "auth_state \<Rightarrow> auth_op \<Rightarrow> auth_state" where
  "auth_step s (OpCheckUser session current now) = checkUser session current now s"
| "auth_step s (OpLogin signIn session current now) = fst (login signIn session current now s)"
| "auth_step s (OpSignup r) = fst (signup r s)"
| "auth_step s (OpVerifyCode r) = fst (verifyCode r s)"
| "auth_step s (OpResendCode r) = fst (resendCode r s)"
| "auth_step s (OpLogout r) = fst (logout r s)"

definition auth_run :: "auth_op list \<Rightarrow> auth_state" where
  "auth_run ops = foldl auth_step auth_init ops"

section \<open>The API client: fetching one book\<close>

text \<open>
  A \<^verbatim>\<open>Response\<close> as \<^verbatim>\<open>getBook\<close> reads it: the status code, and what \<^verbatim>\<open>response.json()\<close>
  settles to. \<^verbatim>\<open>response.ok\<close> is, by the Fetch standard, true exactly for a status in
  the range 200 to 299. The type \<^verbatim>\<open>Book\<close> is declared outside the two source files and
  stays a type parameter.
\<close>

record 'b response =
  status :: nat
  json :: "js_error + 'b"

definition ok :: "'b response \<Rightarrow> bool" where
  "ok r = (200 \<le> status r \<and> status r \<le> 299)"

text \<open>
  \<^verbatim>\<open>getBook\<close>, given what \<^verbatim>\<open>fetch\<close> settled to (\<open>Inl\<close> when the request itself was
  rejected, which \<^verbatim>\<open>getBook\<close> does not catch). \<open>Inr None\<close> is the \<^verbatim>\<open>null\<close> result.
\<close>

definition getBook :: "js_error + 'b response \<Rightarrow> js_error + 'b option" where
  "getBook fetched =
     (case fetched of
        Inl error \<Rightarrow> Inl error
      | Inr response \<Rightarrow>
          if status response = 404 then Inr None
          else if \<not> ok response then Inl (Error ''Failed to fetch book'')
          else (case json response of Inl error \<Rightarrow> Inl error | Inr book \<Rightarrow> Inr (Some book)))"

section \<open>The sign-up view (Signup)\<close>

datatype step = StepSignup | StepVerification

text \<open>The kind of a resend status: the string literals \<^verbatim>\<open>'success'\<close> and \<^verbatim>\<open>'error'\<close>.\<close>

datatype status_type = TypeSuccess | TypeError

record resend_status =
  message :: string
  type :: status_type

text \<open>
  The property names that the view writes into its \<^verbatim>\<open>errors\<close> object: \<^verbatim>\<open>name\<close>,
  \<^verbatim>\<open>email\<close>, \<^verbatim>\<open>password\<close>, \<^verbatim>\<open>confirmPassword\<close> and \<^verbatim>\<open>code\<close>. The object is a map
  from these to messages; \<^verbatim>\<open>{}\<close> is the empty map.
\<close>

datatype field = Name | Email | Password | ConfirmPassword | Code

text \<open>
  The calls the view makes into the auth context. Each of them is one request to the
  identity provider (see \<open>signup\<close>, \<open>verifyCode\<close> and \<open>resendCode\<close> above, which hand the
  provider's outcome to the caller unchanged), so the list of these calls is the view's
  network activity.
\<close>

datatype auth_call =
    CallSignup string string string
  | CallVerifyCode string string
  | CallResendCode string

text \<open>
  What the view writes to the console: a fixed text (\<^verbatim>\<open>console.log("...")\<close>) or the value
  it caught (\<^verbatim>\<open>console.error(error)\<close>).
\<close>

datatype console_line = LogText string | LogValue js_error

text \<open>
  The \<^verbatim>\<open>useState\<close> cells of the view, followed by what the view does to the outside:
  the calls into the auth context, the errors passed to \<^verbatim>\<open>handleApiError\<close>, the
  destination of \<^verbatim>\<open>navigate\<close> and the console lines.
\<close>

record view_state =
  step :: step
  name :: string
  email :: string
  password :: string
  confirmPassword :: string
  verificationCode :: string
  errors :: "field \<rightharpoonup> string"
  isLoading :: bool
  resendStatus :: "resend_status option"
  calls :: "auth_call list"
  apiErrors :: "js_error list"
  navigatedTo :: "string option"
  viewConsole :: "console_line list"

definition view_init :: view_state where
  "view_init =
     \<lparr>step = StepSignup, name = [], email = [], password = [], confirmPassword = [],
      verificationCode = [], errors = Map.empty, isLoading = False, resendStatus = None,
      calls = [], apiErrors = [], navigatedTo = None, viewConsole = []\<rparr>"

text \<open>
  The three functions imported from the module \<^verbatim>\<open>utils/validation\<close>, which is not among
  the source files: the view is modelled for any three predicates on strings.
\<close>

record validators =
  validateRequired :: "string \<Rightarrow> bool"
  validateEmail :: "string \<Rightarrow> bool"
  validatePassword :: "string \<Rightarrow> bool"

text \<open>
  \<^verbatim>\<open>validate\<close>: \<open>newErrors\<close> is built by the four statements in the order of the source,
  stored with \<^verbatim>\<open>setErrors\<close>, and the result says whether it has no keys.
\<close>

definition newErrors :: "validators \<Rightarrow> view_state \<Rightarrow> (field \<rightharpoonup> string)" where
  "newErrors V s =
     (let e0 = Map.empty;
          e1 = (if \<not> validateRequired V (name s) then e0(Name \<mapsto> ''Name is required'') else e0);
          e2 = (if \<not> validateRequired V (email s) then e1(Email \<mapsto> ''Email is required'')
                else if \<not> validateEmail V (email s) then e1(Email \<mapsto> ''Invalid email format'')
                else e1);
          e3 = (if \<not> validateRequired V (password s)
                then e2(Password \<mapsto> ''Password is required'')
                else if \<not> validatePassword V (password s)
                then e2(Password \<mapsto>
                  ''Password must be at least 8 characters with uppercase, lowercase, and number'')
                else e2);
          e4 = (if password s \<noteq> confirmPassword s
                then e3(ConfirmPassword \<mapsto> ''Passwords do not match'') else e3)
      in e4)"

text \<open>
  \<^verbatim>\<open>Object.keys\<close> of an errors object: the properties that are set. The order in which
  JavaScript lists them plays no role, since only the number of keys is read.
\<close>

definition object_keys :: "(field \<rightharpoonup> string) \<Rightarrow> field list" where
  "object_keys m = filter (\<lambda>f. m f \<noteq> None) [Name, Email, Password, ConfirmPassword, Code]"

definition validate :: "validators \<Rightarrow> view_state \<Rightarrow> view_state \<times> bool" where
  "validate V s = (s\<lparr>errors := newErrors V s\<rparr>, length (object_keys (newErrors V s)) = 0)"

text \<open>\<^verbatim>\<open>String.prototype.includes\<close>: \<open>sub\<close> occurs in \<open>s\<close> as a contiguous run.\<close>

fun js_includes :: "string \<Rightarrow> string \<Rightarrow> bool" where
  "js_includes [] sub = (sub = [])"
| "js_includes (c # cs) sub = (take (length sub) (c # cs) = sub \<or> js_includes cs sub)"

text \<open>
  The condition of the special case in \<^verbatim>\<open>handleSignupSubmit\<close>. With an undefined
  \<^verbatim>\<open>message\<close> the optional call \<^verbatim>\<open>error.message?.includes(...)\<close> is \<^verbatim>\<open>undefined\<close>, which
  is falsy.
\<close>

definition already_exists :: "js_error \<Rightarrow> bool" where
  "already_exists error =
     (err_name error = Some ''UsernameExistsException'' \<or>
      (case err_message error of None \<Rightarrow> False | Some m \<Rightarrow> js_includes m ''already exists''))"

text \<open>
  \<^verbatim>\<open>handleSignupSubmit\<close>. \<open>signupResult\<close> is what \<^verbatim>\<open>await signup(email, password, name)\<close>
  settles to and \<open>resendResult\<close> what \<^verbatim>\<open>await resendCode(email)\<close> settles to, should the
  handler get that far. The \<^verbatim>\<open>finally\<close> block runs on every path after \<^verbatim>\<open>validate\<close>.
\<close>

definition handleSignupSubmit ::
  "validators \<Rightarrow> js_error + unit \<Rightarrow> js_error + unit \<Rightarrow> view_state \<Rightarrow> view_state" where
  "handleSignupSubmit V signupResult resendResult s =
     (let (s1, valid) = validate V s in
      if \<not> valid then s1
      else
        let s2 = s1\<lparr>isLoading := True, resendStatus := None,
                    calls := calls s1 @ [CallSignup (email s1) (password s1) (name s1)]\<rparr>;
            s3 =
              (case signupResult of
                 Inr _ \<Rightarrow> s2\<lparr>step := StepVerification\<rparr>
               | Inl error \<Rightarrow>
                   if already_exists error then
                     (let s4 = s2\<lparr>errors := [Email \<mapsto> ''User already exists. Please verify your email.''],
                                  step := StepVerification,
                                  calls := calls s2 @ [CallResendCode (email s2)]\<rparr>
                      in case resendResult of
                           Inr _ \<Rightarrow>
                             s4\<lparr>resendStatus := Some
                               \<lparr>message = ''A new verification code has been sent to your email.'',
                                type = TypeSuccess\<rparr>\<rparr>
                         | Inl resendErr \<Rightarrow>
                             s4\<lparr>viewConsole := viewConsole s4 @
                               [LogText ''Auto-resend skipped due to rate limit.'']\<rparr>)
                   else s2\<lparr>apiErrors := apiErrors s2 @ [error]\<rparr>)
        in s3\<lparr>isLoading := False\<rparr>)"

text \<open>
  \<^verbatim>\<open>handleVerificationSubmit\<close>. \<^verbatim>\<open>!verificationCode\<close> holds exactly for the empty string.
  \<open>verifyResult\<close> is what \<^verbatim>\<open>await verifyCode(email, verificationCode)\<close> settles to.
\<close>

definition handleVerificationSubmit :: "js_error + unit \<Rightarrow> view_state \<Rightarrow> view_state" where
  "handleVerificationSubmit verifyResult s =
     (if verificationCode s = []
      then s\<lparr>errors := [Code \<mapsto> ''Verification code is required'']\<rparr>
      else
        let s1 = s\<lparr>isLoading := True,
                   calls := calls s @ [CallVerifyCode (email s) (verificationCode s)]\<rparr>;
            s2 =
              (case verifyResult of
                 Inr _ \<Rightarrow> s1\<lparr>navigatedTo := Some ''/login''\<rparr>
               | Inl error \<Rightarrow>
                   s1\<lparr>apiErrors := apiErrors s1 @ [error],
                      errors := [Code \<mapsto> ''Invalid verification code'']\<rparr>)
        in s2\<lparr>isLoading := False\<rparr>)"

text \<open>
  \<^verbatim>\<open>handleResendCode\<close>. The handler suspends once, at \<^verbatim>\<open>await resendCode(email)\<close>, and
  the view is rendered from the state it has written so far. The result is that state
  (after \<^verbatim>\<open>setResendStatus(null)\<close>, with the resend call under way) together with the
  state at the end of the handler. \<open>resendResult\<close> is what the awaited call settles to.
\<close>

definition handleResendCode ::
  "js_error + unit \<Rightarrow> view_state \<Rightarrow> view_state \<times> view_state" where
  "handleResendCode resendResult s =
     (let s1 = s\<lparr>resendStatus := None\<rparr>;
          s2 = s1\<lparr>calls := calls s1 @ [CallResendCode (email s1)]\<rparr>;
          s3 =
            (case resendResult of
               Inr _ \<Rightarrow>
                 s2\<lparr>resendStatus := Some
                   \<lparr>message = ''New code sent successfully!'', type = TypeSuccess\<rparr>\<rparr>
             | Inl error \<Rightarrow>
                 s2\<lparr>viewConsole := viewConsole s2 @ [LogValue error],
                    resendStatus := Some
                      \<lparr>message =
                         ''Cannot send multiple emails in a short time. Please try again later.'',
                       type = TypeError\<rparr>\<rparr>)
      in (s2, s3))"

subsection \<open>What the user can do with the view\<close>

text \<open>
  A user action on the rendered view: typing into one of the inputs, submitting one of
  the two forms, or clicking one of the two plain buttons. The submissions and the
  resend button carry the outcomes of the calls that their handlers await.
\<close>

datatype event =
    SetName string
  | SetEmail string
  | SetPassword string
  | SetConfirmPassword string
  | SetVerificationCode string
  | SubmitSignup "js_error + unit" "js_error + unit"
  | SubmitVerification "js_error + unit"
  | ClickResendCode "js_error + unit"
  | ClickBackToSignup

text \<open>
  A handler runs to its end, awaited calls included, before the next action is taken.
\<close>

fun fire :: "validators \<Rightarrow> view_state \<Rightarrow> event \<Rightarrow> view_state" where
  "fire V s (SetName v) = s\<lparr>name := v\<rparr>"
| "fire V s (SetEmail v) = s\<lparr>email := v\<rparr>"
| "fire V s (SetPassword v) = s\<lparr>password := v\<rparr>"
| "fire V s (SetConfirmPassword v) = s\<lparr>confirmPassword := v\<rparr>"
| "fire V s (SetVerificationCode v) = s\<lparr>verificationCode := v\<rparr>"
| "fire V s (SubmitSignup signupResult resendResult) =
     handleSignupSubmit V signupResult resendResult s"
| "fire V s (SubmitVerification verifyResult) = handleVerificationSubmit verifyResult s"
| "fire V s (ClickResendCode resendResult) = snd (handleResendCode resendResult s)"
| "fire V s ClickBackToSignup = s\<lparr>step := StepSignup\<rparr>"

text \<open>
  The JSX renders the sign-up form only under \<^verbatim>\<open>step === 'signup'\<close> and the verification
  form, with the resend and back buttons, only under \<^verbatim>\<open>step === 'verification'\<close>; the two
  submit buttons are disabled while \<^verbatim>\<open>isLoading\<close>. After \<^verbatim>\<open>navigate\<close> the view is gone.
  The browser's own check of the \<^verbatim>\<open>required\<close> inputs is left out: a form can be submitted
  with any field values, and the handlers decide.
\<close>

fun form_of :: "event \<Rightarrow> step" where
  "form_of (SetName v) = StepSignup"
| "form_of (SetEmail v) = StepSignup"
| "form_of (SetPassword v) = StepSignup"
| "form_of (SetConfirmPassword v) = StepSignup"
| "form_of (SubmitSignup signupResult resendResult) = StepSignup"
| "form_of (SetVerificationCode v) = StepVerification"
| "form_of (SubmitVerification verifyResult) = StepVerification"
| "form_of (ClickResendCode resendResult) = StepVerification"
| "form_of ClickBackToSignup = StepVerification"

fun is_submit :: "event \<Rightarrow> bool" where
  "is_submit (SubmitSignup signupResult resendResult) = True"
| "is_submit (SubmitVerification verifyResult) = True"
| "is_submit e = False"

definition rendered :: "view_state \<Rightarrow> event \<Rightarrow> bool" where
  "rendered s e =
     (navigatedTo s = None \<and> step s = form_of e \<and> (is_submit e \<longrightarrow> \<not> isLoading s))"

fun run :: "validators \<Rightarrow> view_state \<Rightarrow> event list \<Rightarrow> view_state" where
  "run V s [] = s"
| "run V s (e # es) = run V (fire V s e) es"

fun possible :: "validators \<Rightarrow> view_state \<Rightarrow> event list \<Rightarrow> bool" where
  "possible V s [] = True"
| "possible V s (e # es) = (rendered s e \<and> possible V (fire V s e) es)"

text \<open>The actions of a run, each paired with the state it was taken in.\<close>

fun history :: "validators \<Rightarrow> view_state \<Rightarrow> event list \<Rightarrow> (view_state \<times> event) list" where
  "history V s [] = []"
| "history V s (e # es) = (s, e) # history V (fire V s e) es"

subsection \<open>The flow step and the most recent sign-up submission\<close>

fun is_signup_submission :: "event \<Rightarrow> bool" where
  "is_signup_submission (SubmitSignup signupResult resendResult) = True"
| "is_signup_submission e = False"

text \<open>The actions whose handlers call \<^verbatim>\<open>setStep\<close>.\<close>

fun sets_step :: "event \<Rightarrow> bool" where
  "sets_step (SubmitSignup signupResult resendResult) = True"
| "sets_step ClickBackToSignup = True"
| "sets_step e = False"

text \<open>
  A sign-up submission that went to the provider and either succeeded or failed with the
  account-already-exists condition.
\<close>

fun advanced :: "validators \<Rightarrow> view_state \<times> event \<Rightarrow> bool" where
  "advanced V (s, SubmitSignup signupResult resendResult) =
     (snd (validate V s) \<and>
      (case signupResult of Inr _ \<Rightarrow> True | Inl error \<Rightarrow> already_exists error))"
| "advanced V (s, e) = False"

text \<open>
  The most recent action of a run from the initial state that satisfies \<open>P\<close>, if there is
  one, and whether it was such a submission.
\<close>

definition most_recent ::
  "(event \<Rightarrow> bool) \<Rightarrow> validators \<Rightarrow> event list \<Rightarrow> (view_state \<times> event) option" where
  "most_recent P V es = find (\<lambda>(s, e). P e) (rev (history V view_init es))"

definition most_recent_advanced :: "(event \<Rightarrow> bool) \<Rightarrow> validators \<Rightarrow> event list \<Rightarrow> bool" where
  "most_recent_advanced P V es =
     (case most_recent P V es of None \<Rightarrow> False | Some p \<Rightarrow> advanced V p)"

subsection \<open>The validation rules of the sign-up form\<close>

text \<open>
  The six conditions under which \<^verbatim>\<open>validate\<close> writes a message, each with the property
  it writes and the message. The format and the policy check sit in the \<^verbatim>\<open>else\<close> branch
  of the required check of the same field.
\<close>

datatype rule =
    NameRequired | EmailRequired | EmailFormat | PasswordRequired | PasswordPolicy
  | PasswordsMatch

fun violated :: "validators \<Rightarrow> view_state \<Rightarrow> rule \<Rightarrow> bool" where
  "violated V s NameRequired = (\<not> validateRequired V (name s))"
| "violated V s EmailRequired = (\<not> validateRequired V (email s))"
| "violated V s EmailFormat = (validateRequired V (email s) \<and> \<not> validateEmail V (email s))"
| "violated V s PasswordRequired = (\<not> validateRequired V (password s))"
| "violated V s PasswordPolicy =
     (validateRequired V (password s) \<and> \<not> validatePassword V (password s))"
| "violated V s PasswordsMatch = (password s \<noteq> confirmPassword s)"

fun rule_field :: "rule \<Rightarrow> field" where
  "rule_field NameRequired = Name"
| "rule_field EmailRequired = Email"
| "rule_field EmailFormat = Email"
| "rule_field PasswordRequired = Password"
| "rule_field PasswordPolicy = Password"
| "rule_field PasswordsMatch = ConfirmPassword"

fun rule_message :: "rule \<Rightarrow> string" where
  "rule_message NameRequired = ''Name is required''"
| "rule_message EmailRequired = ''Email is required''"
| "rule_message EmailFormat = ''Invalid email format''"
| "rule_message PasswordRequired = ''Password is required''"
| "rule_message PasswordPolicy =
     ''Password must be at least 8 characters with uppercase, lowercase, and number''"
| "rule_message PasswordsMatch = ''Passwords do not match''"

subsection \<open>Validation utilities for concrete runs\<close>

text \<open>
  Modelled from the spec: the functions \<^verbatim>\<open>validateRequired\<close>, \<^verbatim>\<open>validateEmail\<close> and
  \<^verbatim>\<open>validatePassword\<close> of the module \<^verbatim>\<open>utils/validation\<close> are missing from the source
  files. The spec asks that a field be non-empty, that the email match a standard address
  format, and that the password meet a minimum length and a character-class policy, which
  the message of the view spells out: at least 8 characters with an uppercase letter, a
  lowercase letter and a digit. The address format is read here as: no blank and exactly
  one at-sign, with something before it and, after it, a dot that has something on both of
  its sides. These three are used to run the view on concrete inputs only; every general
  statement below holds for all validators.
\<close>

definition in_range :: "nat \<Rightarrow> nat \<Rightarrow> char \<Rightarrow> bool" where
  "in_range lo hi c = (lo \<le> of_char c \<and> (of_char c :: nat) \<le> hi)"

definition spec_validateRequired :: "string \<Rightarrow> bool" where
  "spec_validateRequired v = (v \<noteq> [])"

definition spec_validateEmail :: "string \<Rightarrow> bool" where
  "spec_validateEmail v =
     (let local_part = takeWhile (\<lambda>c. c \<noteq> CHR ''@'') v;
          domain = drop (Suc (length local_part)) v
      in local_part \<noteq> [] \<and> CHR ''@'' \<in> set v \<and> CHR ''@'' \<notin> set domain \<and>
         CHR '' '' \<notin> set v \<and> CHR ''.'' \<in> set (butlast (tl domain)))"

definition spec_validatePassword :: "string \<Rightarrow> bool" where
  "spec_validatePassword v =
     (8 \<le> length v \<and> list_ex (in_range 65 90) v \<and> list_ex (in_range 97 122) v \<and>
      list_ex (in_range 48 57) v)"

definition spec_validators :: validators where
  "spec_validators =
     \<lparr>validateRequired = spec_validateRequired, validateEmail = spec_validateEmail,
      validatePassword = spec_validatePassword\<rparr>"

text \<open>A filled-in sign-up form that passes these checks, as a run of the view.\<close>

definition typed_in :: "event list" where
  "typed_in =
     [SetName ''Ada'', SetEmail ''ada@x.org'', SetPassword ''Passw0rd'',
      SetConfirmPassword ''Passw0rd'']"

definition filled_in :: view_state where
  "filled_in = view_init\<lparr>name := ''Ada'', email := ''ada@x.org'', password := ''Passw0rd'',
     confirmPassword := ''Passw0rd''\<rparr>"

text \<open>A rejection of the provider's sign-up call for an account that exists already.\<close>

definition exists_error :: js_error where
  "exists_error =
     \<lparr>err_name = Some ''UsernameExistsException'', err_message = Some ''User already exists''\<rparr>"

text \<open>
  The view after a successful sign-up and a manual resend that the provider refused: it
  shows the rate-limit message.
\<close>

definition after_refused_resend :: view_state where
  "after_refused_resend =
     run spec_validators view_init
       (typed_in @ [SubmitSignup (Inr ()) (Inr ()),
                    ClickResendCode (Inl (Error ''Attempt limit exceeded''))])"

text \<open>A provider state with a user signed in, as \<open>checkUser\<close> publishes it.\<close>

definition signed_in :: auth_state where
  "signed_in =
     checkUser (Inr ()) (Inr \<lparr>userId = ''u-1'', username = ''ada@x.org''\<rparr>)
       ''2024-11-01T10:00:00.000Z'' auth_init"

section \<open>Properties of the auth state provider\<close>

text \<open>
  C1, as the code has it: \<open>logout\<close> never reports a failure to its caller. When the
  provider's sign-out call succeeds, the published user is absent afterwards. When the
  sign-out call fails, the failure is only logged and the published user is left as it
  was: it is not cleared.
\<close>

theorem logout_outcome:
  "snd (logout signOut s) = Inr () \<and>
   (case signOut of
      Inr u \<Rightarrow>
        user (fst (logout signOut s)) = None \<and> console (fst (logout signOut s)) = console s
    | Inl error \<Rightarrow>
        user (fst (logout signOut s)) = user s \<and>
        console (fst (logout signOut s)) = console s @ [''Logout failed:''])"
  by (simp add: logout_def split: sum.split)

text \<open>
  Logging out with a sign-out call that succeeds, and with one that fails, from the state
  with a signed-in user.
\<close>

theorem logout_outcome_witness:
  "user (fst (logout (Inr ()) signed_in)) = None \<and>
   user (fst (logout (Inl (Error ''Network error'')) signed_in)) = user signed_in \<and>
   snd (logout (Inl (Error ''Network error'')) signed_in) = Inr ()"
  using logout_outcome [of "Inr ()" signed_in]
        logout_outcome [of "Inl (Error ''Network error'')" signed_in]
  by simp

text \<open>
  The user is signed in and the sign-out call is rejected: after \<open>logout\<close> the published
  user is still there.
\<close>

theorem logout_clears_user_counterexample:
  "user signed_in \<noteq> None \<and>
   user (fst (logout (Inl (Error ''Network error'')) signed_in)) \<noteq> None"
  by (simp add: logout_def signed_in_def checkUser_def auth_init_def)

text \<open>
  C10: in the value published after the session check and any sequence of \<open>login\<close>,
  \<open>logout\<close>, \<open>signup\<close>, \<open>verifyCode\<close> and \<open>resendCode\<close> operations, whatever the provider
  answered, the flag \<open>isAuthenticated\<close> is true if and only if the published user is not
  null, and the published user is the provider's user cell.
\<close>

theorem isAuthenticated_iff_user:
  "isAuthenticated (provided (auth_run ops)) = (ctx_user (provided (auth_run ops)) \<noteq> None) \<and>
   ctx_user (provided (auth_run ops)) = user (auth_run ops)"
  by (simp add: provided_def truthy_user_def split: option.split)

text \<open>A session check that finds a user, and the same followed by a logout.\<close>

theorem isAuthenticated_iff_user_witness:
  "isAuthenticated (provided (auth_run
     [OpCheckUser (Inr ()) (Inr \<lparr>userId = ''u-1'', username = ''ada@x.org''\<rparr>) ''now''])) \<and>
   \<not> isAuthenticated (provided (auth_run
     [OpCheckUser (Inr ()) (Inr \<lparr>userId = ''u-1'', username = ''ada@x.org''\<rparr>) ''now'',
      OpLogout (Inr ())]))"
  using isAuthenticated_iff_user
          [of "[OpCheckUser (Inr ()) (Inr \<lparr>userId = ''u-1'', username = ''ada@x.org''\<rparr>) ''now'']"]
        isAuthenticated_iff_user
          [of "[OpCheckUser (Inr ()) (Inr \<lparr>userId = ''u-1'', username = ''ada@x.org''\<rparr>) ''now'',
                OpLogout (Inr ())]"]
  by (simp add: provided_def auth_run_def auth_init_def checkUser_def logout_def)

section \<open>Properties of the single-book fetch\<close>

text \<open>
  C9: for a response with status 404, \<open>getBook\<close> returns the absent result and no error;
  for every other response whose status is outside 200 to 299, it raises the one error
  "Failed to fetch book", whatever the status is.
\<close>

theorem getBook_status:
  "(status r = 404 \<longrightarrow> getBook (Inr r) = Inr None) \<and>
   (status r \<noteq> 404 \<and> \<not> (200 \<le> status r \<and> status r \<le> 299) \<longrightarrow>
      getBook (Inr r) = Inl (Error ''Failed to fetch book''))"
  by (simp add: getBook_def ok_def)

text \<open>A 404 response, and two failing responses with different status codes.\<close>

theorem getBook_status_witness:
  "getBook (Inr \<lparr>status = 404, json = Inr ''a book''\<rparr>) = Inr None \<and>
   getBook (Inr \<lparr>status = 500, json = Inr ''a book''\<rparr>) = Inl (Error ''Failed to fetch book'') \<and>
   getBook (Inr \<lparr>status = 403, json = Inr ''a book''\<rparr>) = Inl (Error ''Failed to fetch book'')"
  using getBook_status [of "\<lparr>status = 404, json = Inr ''a book''\<rparr>"]
        getBook_status [of "\<lparr>status = 500, json = Inr ''a book''\<rparr>"]
        getBook_status [of "\<lparr>status = 403, json = Inr ''a book''\<rparr>"]
  by simp

section \<open>Properties of the sign-up view\<close>

subsection \<open>Validation\<close>

lemma object_keys_empty: "(object_keys m = []) = (m = Map.empty)"
proof
  assume "object_keys m = []"
  then have unset: "m Name = None \<and> m Email = None \<and> m Password = None \<and>
      m ConfirmPassword = None \<and> m Code = None"
    unfolding object_keys_def filter_empty_conv by simp
  show "m = Map.empty"
  proof
    fix f show "m f = None" using unset by (cases f) simp_all
  qed
next
  assume "m = Map.empty"
  then show "object_keys m = []" by (simp add: object_keys_def)
qed

lemma validate_snd: "snd (validate V s) = (newErrors V s = Map.empty)"
  by (simp add: validate_def object_keys_empty)

lemma newErrors_violated:
  "violated V s r \<Longrightarrow> newErrors V s (rule_field r) = Some (rule_message r)"
  by (cases r) (simp_all add: newErrors_def Let_def)

text \<open>Validation passes exactly when none of the six rules is violated.\<close>

lemma validate_iff_no_violation: "snd (validate V s) = (\<forall>r. \<not> violated V s r)"
proof
  assume "snd (validate V s)"
  then have e: "newErrors V s = Map.empty" by (simp add: validate_snd)
  show "\<forall>r. \<not> violated V s r"
  proof (intro allI notI)
    fix r assume "violated V s r"
    from newErrors_violated [OF this] e show False by simp
  qed
next
  assume a: "\<forall>r. \<not> violated V s r"
  have "\<not> violated V s NameRequired" "\<not> violated V s EmailRequired"
    "\<not> violated V s EmailFormat" "\<not> violated V s PasswordRequired"
    "\<not> violated V s PasswordPolicy" "\<not> violated V s PasswordsMatch"
    using a by blast+
  then have "newErrors V s = Map.empty"
    by (simp add: newErrors_def Let_def)
  then show "snd (validate V s)" by (simp add: validate_snd)
qed

lemma handleSignupSubmit_invalid:
  "\<not> snd (validate V s) \<Longrightarrow>
   handleSignupSubmit V signupResult resendResult s = s\<lparr>errors := newErrors V s\<rparr>"
  by (simp add: handleSignupSubmit_def validate_def)

lemma violated_blocks:
  assumes "violated V s r"
  shows "calls (handleSignupSubmit V signupResult resendResult s) = calls s \<and>
         errors (handleSignupSubmit V signupResult resendResult s) (rule_field r)
           = Some (rule_message r)"
proof -
  from assms have "\<not> snd (validate V s)" by (auto simp: validate_iff_no_violation)
  from handleSignupSubmit_invalid [OF this] newErrors_violated [OF assms]
  show ?thesis by simp
qed

text \<open>
  C5, as the code has it: a sign-up submission that violates one of the six rules of
  \<open>validate\<close> (name, email or password rejected by the required check; an email that passes
  the required check and does not match the address format; a password that passes the
  required check and fails the policy; a password that differs from the confirm-password)
  makes no network call and records the message of that rule under the field of that rule.
  The confirm-password has no required check and no message of its own: a submission whose
  confirm-password is rejected by the required check makes no network call either, and what
  is recorded is the mismatch message when it differs from the password, and the
  password's required message when it does not.
\<close>

theorem signup_rule_violation:
  "(violated V s r \<longrightarrow>
      calls (handleSignupSubmit V signupResult resendResult s) = calls s \<and>
      errors (handleSignupSubmit V signupResult resendResult s) (rule_field r)
        = Some (rule_message r)) \<and>
   (\<not> validateRequired V (confirmPassword s) \<longrightarrow>
      calls (handleSignupSubmit V signupResult resendResult s) = calls s \<and>
      (if password s \<noteq> confirmPassword s
       then errors (handleSignupSubmit V signupResult resendResult s) ConfirmPassword
              = Some ''Passwords do not match''
       else errors (handleSignupSubmit V signupResult resendResult s) Password
              = Some ''Password is required''))"
proof (rule conjI; rule impI)
  assume "violated V s r"
  from violated_blocks [OF this]
  show "calls (handleSignupSubmit V signupResult resendResult s) = calls s \<and>
        errors (handleSignupSubmit V signupResult resendResult s) (rule_field r)
          = Some (rule_message r)" .
next
  assume c: "\<not> validateRequired V (confirmPassword s)"
  show "calls (handleSignupSubmit V signupResult resendResult s) = calls s \<and>
      (if password s \<noteq> confirmPassword s
       then errors (handleSignupSubmit V signupResult resendResult s) ConfirmPassword
              = Some ''Passwords do not match''
       else errors (handleSignupSubmit V signupResult resendResult s) Password
              = Some ''Password is required'')"
  proof (cases "password s = confirmPassword s")
    case True
    with c have "violated V s PasswordRequired" by simp
    from violated_blocks [OF this] True show ?thesis by simp
  next
    case False
    then have "violated V s PasswordsMatch" by simp
    from violated_blocks [OF this] False show ?thesis by simp
  qed
qed

text \<open>
  The empty form: the name rule is violated and the confirm-password is empty, as is the
  password.
\<close>

theorem signup_rule_violation_witness:
  "violated spec_validators view_init NameRequired \<and>
   \<not> validateRequired spec_validators (confirmPassword view_init) \<and>
   calls (handleSignupSubmit spec_validators (Inr ()) (Inr ()) view_init) = calls view_init \<and>
   errors (handleSignupSubmit spec_validators (Inr ()) (Inr ()) view_init) Name
     = Some ''Name is required'' \<and>
   errors (handleSignupSubmit spec_validators (Inr ()) (Inr ()) view_init) Password
     = Some ''Password is required''"
proof -
  have v: "violated spec_validators view_init NameRequired" by code_simp
  have c: "\<not> validateRequired spec_validators (confirmPassword view_init)" by code_simp
  have p: "password view_init = confirmPassword view_init" by code_simp
  from signup_rule_violation [of spec_validators view_init NameRequired "Inr ()" "Inr ()"] v c p
  show ?thesis by simp
qed

text \<open>
  Name and email are filled in, password and confirm-password are both empty: the
  confirm-password is empty, and no message is recorded under \<^verbatim>\<open>confirmPassword\<close>.
\<close>

theorem signup_rule_violation_counterexample:
  "\<not> validateRequired spec_validators
       (confirmPassword (view_init\<lparr>name := ''Ada'', email := ''ada@x.org''\<rparr>)) \<and>
   errors (handleSignupSubmit spec_validators (Inr ()) (Inr ())
       (view_init\<lparr>name := ''Ada'', email := ''ada@x.org''\<rparr>)) ConfirmPassword = None"
  by code_simp

subsection \<open>Sign-up submission\<close>

text \<open>What a submission that passes validation does, by the outcome of the provider calls.\<close>

lemma handleSignupSubmit_valid:
  "snd (validate V s) \<Longrightarrow>
   handleSignupSubmit V signupResult resendResult s =
     (case signupResult of
        Inr u \<Rightarrow>
          s\<lparr>errors := Map.empty, resendStatus := None,
            calls := calls s @ [CallSignup (email s) (password s) (name s)],
            step := StepVerification, isLoading := False\<rparr>
      | Inl error \<Rightarrow>
          if already_exists error then
            (case resendResult of
               Inr u \<Rightarrow>
                 s\<lparr>errors := [Email \<mapsto> ''User already exists. Please verify your email.''],
                   calls := calls s @ [CallSignup (email s) (password s) (name s),
                                       CallResendCode (email s)],
                   step := StepVerification,
                   resendStatus := Some
                     \<lparr>message = ''A new verification code has been sent to your email.'',
                      type = TypeSuccess\<rparr>,
                   isLoading := False\<rparr>
             | Inl resendErr \<Rightarrow>
                 s\<lparr>errors := [Email \<mapsto> ''User already exists. Please verify your email.''],
                   calls := calls s @ [CallSignup (email s) (password s) (name s),
                                       CallResendCode (email s)],
                   step := StepVerification,
                   resendStatus := None,
                   viewConsole := viewConsole s @
                     [LogText ''Auto-resend skipped due to rate limit.''],
                   isLoading := False\<rparr>)
          else
            s\<lparr>errors := Map.empty, resendStatus := None,
              calls := calls s @ [CallSignup (email s) (password s) (name s)],
              apiErrors := apiErrors s @ [error], isLoading := False\<rparr>)"
  by (simp add: handleSignupSubmit_def validate_def object_keys_empty Let_def split: sum.split)

text \<open>\<open>js_includes\<close> is the substring test.\<close>

lemma js_includes_iff: "js_includes s sub = (\<exists>pre post. s = pre @ sub @ post)"
proof (induction s)
  case Nil
  then show ?case by auto
next
  case (Cons c cs)
  show ?case
  proof
    assume "js_includes (c # cs) sub"
    then consider "take (length sub) (c # cs) = sub" | "js_includes cs sub" by auto
    then show "\<exists>pre post. c # cs = pre @ sub @ post"
    proof cases
      case 1
      then have "c # cs = [] @ sub @ drop (length sub) (c # cs)"
        by (metis append_Nil append_take_drop_id)
      then show ?thesis by blast
    next
      case 2
      with Cons.IH obtain pre post where "cs = pre @ sub @ post" by blast
      then have "c # cs = (c # pre) @ sub @ post" by simp
      then show ?thesis by blast
    qed
  next
    assume "\<exists>pre post. c # cs = pre @ sub @ post"
    then obtain pre post where eq: "c # cs = pre @ sub @ post" by blast
    show "js_includes (c # cs) sub"
    proof (cases pre)
      case Nil
      with eq have "take (length sub) (c # cs) = sub" by simp
      then show ?thesis by simp
    next
      case (Cons p ps)
      with eq have "cs = ps @ sub @ post" by simp
      with Cons.IH have "js_includes cs sub" by blast
      then show ?thesis by simp
    qed
  qed
qed

text \<open>
  C7: a sign-up submission from the rendered sign-up form that passes validation and
  whose provider sign-up call succeeds takes the flow step from \<open>signup\<close> to
  \<open>verification\<close>, and the resend-status is absent when the handler ends.
\<close>

theorem signup_success:
  assumes "rendered s (SubmitSignup (Inr u) resendResult)" and "snd (validate V s)"
  shows "step s = StepSignup \<and>
         step (handleSignupSubmit V (Inr u) resendResult s) = StepVerification \<and>
         resendStatus (handleSignupSubmit V (Inr u) resendResult s) = None"
  using assms by (simp add: handleSignupSubmit_valid rendered_def)

text \<open>The filled-in form, submitted, with a sign-up call that succeeds.\<close>

theorem signup_success_witness:
  "rendered filled_in (SubmitSignup (Inr ()) (Inr ())) \<and>
   snd (validate spec_validators filled_in) \<and>
   step filled_in = StepSignup \<and>
   step (handleSignupSubmit spec_validators (Inr ()) (Inr ()) filled_in) = StepVerification \<and>
   resendStatus (handleSignupSubmit spec_validators (Inr ()) (Inr ()) filled_in) = None"
proof -
  have r: "rendered filled_in (SubmitSignup (Inr ()) (Inr ()))" by code_simp
  have v: "snd (validate spec_validators filled_in)" by code_simp
  from signup_success [OF r v] r v show ?thesis by blast
qed

text \<open>
  C3: when a sign-up submission has passed validation and the provider call fails with
  an error whose name is \<^verbatim>\<open>UsernameExistsException\<close> or whose message contains
  \<^verbatim>\<open>already exists\<close>, the handler sets the email field error (and no other), moves the
  flow step to \<open>verification\<close> and calls the resend operation once, after the sign-up call.
  If the resend succeeds, the resend-status is the success outcome with the new-code text;
  if it fails, the resend-status stays absent and nothing is handed to the API error
  handler.
\<close>

theorem signup_already_exists:
  assumes "snd (validate V s)"
    and "err_name error = Some ''UsernameExistsException'' \<or>
         (\<exists>m pre post. err_message error = Some m \<and> m = pre @ ''already exists'' @ post)"
  shows "errors (handleSignupSubmit V (Inl error) resendResult s)
           = [Email \<mapsto> ''User already exists. Please verify your email.''] \<and>
         step (handleSignupSubmit V (Inl error) resendResult s) = StepVerification \<and>
         calls (handleSignupSubmit V (Inl error) resendResult s)
           = calls s @ [CallSignup (email s) (password s) (name s), CallResendCode (email s)] \<and>
         resendStatus (handleSignupSubmit V (Inl error) resendResult s)
           = (case resendResult of
                Inr u \<Rightarrow>
                  Some \<lparr>message = ''A new verification code has been sent to your email.'',
                        type = TypeSuccess\<rparr>
              | Inl resendErr \<Rightarrow> None) \<and>
         apiErrors (handleSignupSubmit V (Inl error) resendResult s) = apiErrors s"
proof -
  have "already_exists error"
  proof (cases "err_name error = Some ''UsernameExistsException''")
    case True
    then show ?thesis by (simp add: already_exists_def)
  next
    case False
    with assms(2) obtain m pre post
      where m: "err_message error = Some m" "m = pre @ ''already exists'' @ post"
      by blast
    from m(2) have "js_includes m ''already exists''"
      unfolding js_includes_iff by blast
    with m(1) show ?thesis by (simp add: already_exists_def)
  qed
  with assms(1) show ?thesis
    by (simp add: handleSignupSubmit_valid split: sum.split)
qed

text \<open>
  The filled-in form, rejected because the account exists; once with a resend that
  succeeds and once with a resend that the provider refuses.
\<close>

theorem signup_already_exists_witness:
  "snd (validate spec_validators filled_in) \<and>
   step (handleSignupSubmit spec_validators (Inl exists_error) (Inr ()) filled_in)
     = StepVerification \<and>
   errors (handleSignupSubmit spec_validators (Inl exists_error) (Inr ()) filled_in) Email
     = Some ''User already exists. Please verify your email.'' \<and>
   resendStatus (handleSignupSubmit spec_validators (Inl exists_error) (Inr ()) filled_in)
     = Some \<lparr>message = ''A new verification code has been sent to your email.'',
             type = TypeSuccess\<rparr> \<and>
   resendStatus (handleSignupSubmit spec_validators (Inl exists_error)
       (Inl (Error ''Attempt limit exceeded'')) filled_in)
     = None"
proof -
  have v: "snd (validate spec_validators filled_in)" by code_simp
  have e: "err_name exists_error = Some ''UsernameExistsException'' \<or>
         (\<exists>m pre post. err_message exists_error = Some m \<and> m = pre @ ''already exists'' @ post)"
    by (simp add: exists_error_def)
  from signup_already_exists [OF v e, of "Inr ()"]
       signup_already_exists [OF v e, of "Inl (Error ''Attempt limit exceeded'')"] v
  show ?thesis by simp
qed

subsection \<open>Verification submission\<close>

text \<open>
  C4, as the code has it: a verification submission with a non-empty code whose confirm
  operation succeeds calls the confirm operation once and navigates to the login
  destination. The handler leaves the view's error state as it found it: it sets no field
  error, and it clears none, so errors recorded by an earlier sign-up or verification
  attempt are still set at that point.
\<close>

theorem verification_success:
  assumes "verificationCode s \<noteq> []"
  shows "navigatedTo (handleVerificationSubmit (Inr u) s) = Some ''/login'' \<and>
         calls (handleVerificationSubmit (Inr u) s)
           = calls s @ [CallVerifyCode (email s) (verificationCode s)] \<and>
         errors (handleVerificationSubmit (Inr u) s) = errors s"
  using assms by (simp add: handleVerificationSubmit_def)

text \<open>A code typed into the fresh view, confirmed.\<close>

theorem verification_success_witness:
  "verificationCode (view_init\<lparr>verificationCode := ''123456''\<rparr>) \<noteq> [] \<and>
   navigatedTo (handleVerificationSubmit (Inr ()) (view_init\<lparr>verificationCode := ''123456''\<rparr>))
     = Some ''/login'' \<and>
   errors (handleVerificationSubmit (Inr ()) (view_init\<lparr>verificationCode := ''123456''\<rparr>)) Email
     = None"
proof -
  have c: "verificationCode (view_init\<lparr>verificationCode := ''123456''\<rparr>) \<noteq> []" by simp
  from verification_success [OF c, of "()"] c show ?thesis by (simp add: view_init_def)
qed

text \<open>
  A sign-up rejected because the account exists, followed by a code and a successful
  confirmation: the view navigates to the login destination with the email field error
  still set.
\<close>

theorem verification_success_counterexample:
  "possible spec_validators view_init
     (typed_in @ [SubmitSignup (Inl exists_error) (Inr ()), SetVerificationCode ''123456'',
                  SubmitVerification (Inr ())]) \<and>
   navigatedTo (run spec_validators view_init
     (typed_in @ [SubmitSignup (Inl exists_error) (Inr ()), SetVerificationCode ''123456'',
                  SubmitVerification (Inr ())])) = Some ''/login'' \<and>
   errors (run spec_validators view_init
     (typed_in @ [SubmitSignup (Inl exists_error) (Inr ()), SetVerificationCode ''123456'',
                  SubmitVerification (Inr ())])) Email
     = Some ''User already exists. Please verify your email.''"
  by code_simp

text \<open>
  C8: a verification submission with an empty code records the field error on the code
  field and makes no network call; with a non-empty code the handler calls the confirm
  operation, once, with the email and the code. So the confirm operation is invoked only
  when the code is non-empty.
\<close>

theorem verification_empty_code:
  "(verificationCode s = [] \<longrightarrow>
      errors (handleVerificationSubmit verifyResult s)
        = [Code \<mapsto> ''Verification code is required''] \<and>
      calls (handleVerificationSubmit verifyResult s) = calls s) \<and>
   (verificationCode s \<noteq> [] \<longrightarrow>
      calls (handleVerificationSubmit verifyResult s)
        = calls s @ [CallVerifyCode (email s) (verificationCode s)])"
  by (simp add: handleVerificationSubmit_def Let_def split: sum.split)

text \<open>The fresh view, submitted with no code and with a code.\<close>

theorem verification_empty_code_witness:
  "verificationCode view_init = [] \<and>
   errors (handleVerificationSubmit (Inr ()) view_init) Code
     = Some ''Verification code is required'' \<and>
   calls (handleVerificationSubmit (Inr ()) view_init) = [] \<and>
   calls (handleVerificationSubmit (Inr ()) (view_init\<lparr>verificationCode := ''123456''\<rparr>))
     = [CallVerifyCode [] ''123456'']"
  using verification_empty_code [of view_init "Inr ()"]
        verification_empty_code [of "view_init\<lparr>verificationCode := ''123456''\<rparr>" "Inr ()"]
  by (simp add: view_init_def)

subsection \<open>Manual resend\<close>

text \<open>
  C6: every manual resend, whatever resend-status the view holds when the button is
  clicked, first resets the resend-status to absent: it is absent while the resend call,
  the one call the handler makes, is awaited. Once the call has settled, the
  resend-status is one of two fixed outcomes: the success message with kind success when
  the call succeeded, and the rate-limit message with kind error when it failed, whatever
  the failure was.
\<close>

theorem manual_resend_status:
  "resendStatus (fst (handleResendCode resendResult s)) = None \<and>
   calls (fst (handleResendCode resendResult s)) = calls s @ [CallResendCode (email s)] \<and>
   calls (snd (handleResendCode resendResult s)) = calls s @ [CallResendCode (email s)] \<and>
   resendStatus (snd (handleResendCode resendResult s))
     = (case resendResult of
          Inr u \<Rightarrow> Some \<lparr>message = ''New code sent successfully!'', type = TypeSuccess\<rparr>
        | Inl error \<Rightarrow>
            Some \<lparr>message =
                    ''Cannot send multiple emails in a short time. Please try again later.'',
                  type = TypeError\<rparr>)"
  by (simp add: handleResendCode_def Let_def split: sum.split)

text \<open>
  A resend that succeeds, and one that fails with another error, from the view that shows
  the rate-limit message of an earlier resend.
\<close>

theorem manual_resend_status_witness:
  "resendStatus after_refused_resend
     = Some \<lparr>message = ''Cannot send multiple emails in a short time. Please try again later.'',
             type = TypeError\<rparr> \<and>
   resendStatus (fst (handleResendCode (Inr ()) after_refused_resend)) = None \<and>
   resendStatus (snd (handleResendCode (Inr ()) after_refused_resend))
     = Some \<lparr>message = ''New code sent successfully!'', type = TypeSuccess\<rparr> \<and>
   resendStatus (fst (handleResendCode (Inl (Error ''Network error'')) after_refused_resend))
     = None \<and>
   resendStatus (snd (handleResendCode (Inl (Error ''Network error'')) after_refused_resend))
     = Some \<lparr>message = ''Cannot send multiple emails in a short time. Please try again later.'',
             type = TypeError\<rparr>"
proof -
  have prior: "resendStatus after_refused_resend
     = Some \<lparr>message = ''Cannot send multiple emails in a short time. Please try again later.'',
             type = TypeError\<rparr>"
    by code_simp
  from manual_resend_status [of "Inr ()" after_refused_resend]
       manual_resend_status [of "Inl (Error ''Network error'')" after_refused_resend] prior
  show ?thesis by simp
qed

subsection \<open>The flow step\<close>

text \<open>
  One action taken on the rendered view: a sign-up submission or a click on the back
  button decides the step, every other action keeps it.
\<close>

lemma fire_step:
  assumes "rendered s e"
  shows "(step (fire V s e) = StepVerification) =
         (if sets_step e then advanced V (s, e) else step s = StepVerification)"
proof (cases e)
  case (SubmitSignup signupResult resendResult)
  with assms have st: "step s = StepSignup" by (simp add: rendered_def)
  show ?thesis
  proof (cases "snd (validate V s)")
    case True
    then show ?thesis using SubmitSignup st
      by (simp add: handleSignupSubmit_valid split: sum.split)
  next
    case False
    then show ?thesis using SubmitSignup st
      by (simp add: handleSignupSubmit_invalid)
  qed
next
  case (SubmitVerification verifyResult)
  then show ?thesis by (simp add: handleVerificationSubmit_def Let_def split: sum.split)
next
  case (ClickResendCode resendResult)
  then show ?thesis
    by (simp add: handleResendCode_def Let_def split: sum.split)
qed simp_all

lemma find_snoc:
  "find P (xs @ [x]) =
     (case find P xs of None \<Rightarrow> (if P x then Some x else None) | Some y \<Rightarrow> Some y)"
  by (induction xs) simp_all

lemma run_step:
  "possible V s es \<Longrightarrow>
   (step (run V s es) = StepVerification) =
   (case find (\<lambda>(s, e). sets_step e) (rev (history V s es)) of
      None \<Rightarrow> step s = StepVerification
    | Some p \<Rightarrow> advanced V p)"
proof (induction es arbitrary: s)
  case Nil
  then show ?case by simp
next
  case (Cons e es)
  then have r: "rendered s e" and p: "possible V (fire V s e) es" by simp_all
  show ?case
    using Cons.IH [OF p] fire_step [OF r, of V]
    by (simp add: find_snoc split: option.split)
qed

text \<open>
  C2, as the code has it: in every state that the view reaches from its initial state
  (flow step \<open>signup\<close>), the flow step is \<open>verification\<close> if and only if the most recent
  action among sign-up submissions and clicks on "Back to Signup" is a sign-up submission
  that passed validation and whose provider call either succeeded or failed with the
  account-already-exists condition. After any other sign-up submission, and after a click
  on "Back to Signup", the flow step is \<open>signup\<close>.
\<close>

theorem step_verification_iff:
  assumes "possible V view_init es"
  shows "(step (run V view_init es) = StepVerification) = most_recent_advanced sets_step V es"
  using run_step [OF assms]
  by (simp add: most_recent_advanced_def most_recent_def view_init_def split: option.split)

text \<open>The filled-in form, submitted, with a sign-up call that succeeds.\<close>

theorem step_verification_iff_witness:
  "possible spec_validators view_init (typed_in @ [SubmitSignup (Inr ()) (Inr ())]) \<and>
   step (run spec_validators view_init (typed_in @ [SubmitSignup (Inr ()) (Inr ())]))
     = StepVerification \<and>
   most_recent_advanced sets_step spec_validators (typed_in @ [SubmitSignup (Inr ()) (Inr ())])"
proof -
  have h: "possible spec_validators view_init (typed_in @ [SubmitSignup (Inr ()) (Inr ())])"
    by code_simp
  have st: "step (run spec_validators view_init (typed_in @ [SubmitSignup (Inr ()) (Inr ())]))
              = StepVerification"
    by code_simp
  from step_verification_iff [OF h] st h show ?thesis by blast
qed

text \<open>
  The same run followed by a click on "Back to Signup": the most recent sign-up
  submission succeeded, and the flow step is \<open>signup\<close>.
\<close>

theorem step_verification_iff_counterexample:
  "possible spec_validators view_init
     (typed_in @ [SubmitSignup (Inr ()) (Inr ()), ClickBackToSignup]) \<and>
   most_recent_advanced is_signup_submission spec_validators
     (typed_in @ [SubmitSignup (Inr ()) (Inr ()), ClickBackToSignup]) \<and>
   step (run spec_validators view_init
     (typed_in @ [SubmitSignup (Inr ()) (Inr ()), ClickBackToSignup])) = StepSignup"
  by code_simp

end
